theory Spec2Isabelle
  imports Complex_Main "HOL-Library.AList"
begin

section \<open>Characters and strings\<close>

text \<open>
  Python strings are modelled as \<open>string\<close> (lists of 8-bit characters, read as the
  code points below 256).  On that range \<open>str.isspace\<close>, the regular expression
  class \<open>\s\<close> and \<open>str.strip()\<close> agree on the twelve characters of
  \<open>is_space\<close>, and \<open>\d\<close> is the ten ASCII digits.
\<close>

definition is_space :: "char \<Rightarrow> bool" where
  "is_space c = (c \<in> set [CHR 0x09, CHR 0x0A, CHR 0x0B, CHR 0x0C, CHR 0x0D,
     CHR 0x1C, CHR 0x1D, CHR 0x1E, CHR 0x1F, CHR 0x20, CHR 0x85, CHR 0xA0])"

definition is_digit :: "char \<Rightarrow> bool" where
  "is_digit c = (c \<in> set ''0123456789'')"

definition digit_val :: "char \<Rightarrow> nat" where
  "digit_val c = of_char c - 48"

definition digits_nat :: "string \<Rightarrow> nat" where
  "digits_nat ds = foldl (\<lambda>a c. 10 * a + digit_val c) 0 ds"

text \<open>\<open>str.lower()\<close> on one character: A-Z and the Latin-1 capitals move by 32.\<close>

definition lower_char :: "char \<Rightarrow> char" where
  "lower_char c =
     (let n = (of_char c :: nat)
      in if (65 \<le> n \<and> n \<le> 90) \<or> (192 \<le> n \<and> n \<le> 222 \<and> n \<noteq> 215)
         then char_of (n + 32) else c)"

definition lower :: "string \<Rightarrow> string" where
  "lower s = map lower_char s"

text \<open>\<open>text.split("\n")\<close>: never empty, one more piece than there are newlines.\<close>

fun split_nl :: "string \<Rightarrow> string list" where
  "split_nl [] = [[]]"
| "split_nl (c # cs) =
     (if c = CHR 0x0A then [] # split_nl cs
      else (case split_nl cs of l # ls \<Rightarrow> (c # l) # ls | [] \<Rightarrow> [[c]]))"

text \<open>\<open>" ".join(rows)\<close>.\<close>

fun join_sp :: "string list \<Rightarrow> string" where
  "join_sp [] = []"
| "join_sp [x] = x"
| "join_sp (x # y # ys) = x @ CHR '' '' # join_sp (y # ys)"

fun starts_with :: "string \<Rightarrow> string \<Rightarrow> bool" where
  "starts_with s [] = True"
| "starts_with [] (p # ps) = False"
| "starts_with (c # cs) (p # ps) = (c = p \<and> starts_with cs ps)"

text \<open>\<open>x in s\<close> on strings: \<open>contains s x\<close>.\<close>

fun contains :: "string \<Rightarrow> string \<Rightarrow> bool" where
  "contains [] x = (x = [])"
| "contains (c # cs) x = (starts_with (c # cs) x \<or> contains cs x)"

text \<open>\<open>not line.strip()\<close>: the line is empty or all whitespace.\<close>

definition blank :: "string \<Rightarrow> bool" where
  "blank line = list_all is_space line"

section \<open>The two regular expressions of the parser\<close>

text \<open>
  \<open>date_pattern\<close> is \<^verbatim>\<open>(\d{1,2}\s+(?:Jan|...|Dec)\s+\d{4})\<close>.
  \<open>date_tail\<close> matches what follows the day digits and returns the matched text.
  The greedy \<open>\s+\<close> can only succeed on the whole run of whitespace, since a month
  name and a digit are not whitespace.
\<close>

definition months :: "string list" where
  "months = [''Jan'', ''Feb'', ''Mar'', ''Apr'', ''May'', ''Jun'',
             ''Jul'', ''Aug'', ''Sep'', ''Oct'', ''Nov'', ''Dec'']"

definition date_tail :: "string \<Rightarrow> string option" where
  "date_tail s =
     (let ws1 = takeWhile is_space s; r1 = dropWhile is_space s;
          mon = take 3 r1; r2 = drop 3 r1;
          ws2 = takeWhile is_space r2; r3 = dropWhile is_space r2;
          yr = take 4 r3
      in if ws1 \<noteq> [] \<and> mon \<in> set months \<and> ws2 \<noteq> [] \<and> length yr = 4 \<and> list_all is_digit yr
         then Some (ws1 @ mon @ ws2 @ yr) else None)"

text \<open>
  The pattern anchored at the first character of \<open>s\<close>: \<open>\d{1,2}\<close> is greedy, two
  digits are tried first and one digit after a failure.
\<close>

definition match_date :: "string \<Rightarrow> string option" where
  "match_date s =
     (let ds = takeWhile is_digit (take 2 s)
      in if length ds = 2 then
           (case date_tail (drop 2 s) of
              Some t \<Rightarrow> Some (ds @ t)
            | None \<Rightarrow> map_option (\<lambda>t. take 1 s @ t) (date_tail (drop 1 s)))
         else if length ds = 1 then map_option (\<lambda>t. ds @ t) (date_tail (drop 1 s))
         else None)"

text \<open>\<open>re.search(date_pattern, s)\<close> with \<open>group(1)\<close>: the leftmost match.\<close>

fun search_date :: "string \<Rightarrow> string option" where
  "search_date [] = None"
| "search_date (c # cs) =
     (case match_date (c # cs) of Some m \<Rightarrow> Some m | None \<Rightarrow> search_date cs)"

text \<open>
  \<open>amount_pattern\<close> is \<^verbatim>\<open>(?:^|\s)([\d,]+\.\d{2})(?:\s|$)\<close>.
  \<open>amount_body\<close> matches the group and the closing \<^verbatim>\<open>(?:\s|$)\<close>; it returns the
  group and the text after the match.  The closing whitespace character is consumed by the
  match.
\<close>

definition is_dc :: "char \<Rightarrow> bool" where
  "is_dc c = (is_digit c \<or> c = CHR '','')"

definition amount_body :: "string \<Rightarrow> (string \<times> string) option" where
  "amount_body s =
     (let run = takeWhile is_dc s; r = dropWhile is_dc s
      in case r of
           dot # f1 # f2 # rest \<Rightarrow>
             if run \<noteq> [] \<and> dot = CHR ''.'' \<and> is_digit f1 \<and> is_digit f2 then
               (case rest of
                  [] \<Rightarrow> Some (run @ [dot, f1, f2], [])
                | c # rest' \<Rightarrow>
                    if is_space c then Some (run @ [dot, f1, f2], rest') else None)
             else None
         | _ \<Rightarrow> None)"

text \<open>
  One match attempt at a position: \<open>^\<close> only at the start of the text, otherwise one
  whitespace character is consumed before the group.
\<close>

definition match_amount :: "bool \<Rightarrow> string \<Rightarrow> (string \<times> string) option" where
  "match_amount at_start s =
     (case (if at_start then amount_body s else None) of
        Some r \<Rightarrow> Some r
      | None \<Rightarrow>
          (case s of [] \<Rightarrow> None
           | c # cs \<Rightarrow> if is_space c then amount_body cs else None))"

lemma amount_body_shorter:
  "amount_body s = Some (g, rest) \<Longrightarrow> length rest < length s"
proof -
  assume a: "amount_body s = Some (g, rest)"
  have l: "length (dropWhile is_dc s) \<le> length s"
    by (rule length_dropWhile_le)
  from a l show ?thesis
    by (auto simp: amount_body_def Let_def split: list.splits if_splits)
qed

lemma match_amount_shorter:
  "match_amount b s = Some (g, rest) \<Longrightarrow> length rest < length s"
  by (auto simp: match_amount_def split: option.splits if_splits list.splits
      dest: amount_body_shorter)

text \<open>
  \<open>re.findall(amount_pattern, s)\<close>: the scan resumes where the last match ended, and
  moves one character on where no match starts.
\<close>

function findall_amount :: "bool \<Rightarrow> string \<Rightarrow> string list" where
  "findall_amount at_start s =
     (case match_amount at_start s of
        Some (g, rest) \<Rightarrow> g # findall_amount False rest
      | None \<Rightarrow> (case s of [] \<Rightarrow> [] | c # cs \<Rightarrow> findall_amount False cs))"
  by pat_completeness auto
termination
  by (relation "measure (\<lambda>(b, s). length s)") (auto dest: match_amount_shorter)

section \<open>Transactions\<close>

text \<open>
  A transaction is the dictionary built by \<open>parse_transactions\<close>.  The key
  \<open>amount\<close> is present in some of them only, hence an option.  The numeric fields are
  Python floats (or the integer 0); they are modelled as reals, so \<open>float(...)\<close> of a
  matched amount is its exact decimal value.
\<close>

record transaction =
  date :: string
  debit :: real
  credit :: real
  balance :: real
  amount :: "real option"
  description :: string

text \<open>\<open>float(a.replace(",", ""))\<close> for a text matched by the amount pattern.\<close>

definition float_amount :: "string \<Rightarrow> real" where
  "float_amount a =
     (let t = filter (\<lambda>c. c \<noteq> CHR '','') a;
          ip = takeWhile (\<lambda>c. c \<noteq> CHR ''.'') t;
          fp = drop 1 (dropWhile (\<lambda>c. c \<noteq> CHR ''.'') t)
      in real (digits_nat ip) + real (digits_nat fp) / 10 ^ length fp)"

definition find_amounts :: "string \<Rightarrow> real list" where
  "find_amounts full_text =
     map float_amount (filter (\<lambda>a. a \<noteq> []) (findall_amount True full_text))"

definition is_debit :: "string \<Rightarrow> bool" where
  "is_debit full_text =
     (let l = lower full_text
      in contains l ''debit'' \<or> contains l ''transfer to'' \<or> contains l ''paid to'')"

text \<open>
  The values \<open>(debit, credit, balance)\<close> of a block; the source computes them by the
  same statements where it closes a block inside the loop and after it.
\<close>

definition block_values :: "string \<Rightarrow> real \<times> real \<times> real" where
  "block_values full_text =
     (let amounts = find_amounts full_text
      in if amounts = [] then (0, 0, 0)
         else
           (let balance = last amounts
            in if length amounts > 1 then
                 (let transaction_amount = amounts ! (length amounts - 2)
                  in if is_debit full_text then (transaction_amount, 0, balance)
                     else (0, transaction_amount, balance))
               else (0, 0, balance)))"

text \<open>\<open>full_text.split("\n")[0]\<close>.\<close>

definition first_line :: "string \<Rightarrow> string" where
  "first_line s = (case split_nl s of l # ls \<Rightarrow> l | [] \<Rightarrow> [])"

text \<open>
  A block closed inside the loop, when the next line with a date arrives:
  \<open>date_str\<close> is \<open>date_match.group(1)\<close>, and \<open>date_match\<close> is the match on the line
  being read.
\<close>

definition close_block :: "string list \<Rightarrow> string \<Rightarrow> transaction" where
  "close_block current_row date_str =
     (let full_text = join_sp current_row;
          (d, c, b) = block_values full_text
      in \<lparr>date = date_str, debit = d, credit = c, balance = b, amount = None,
          description = first_line full_text\<rparr>)"

text \<open>The last block, closed after the loop; its date is searched in its own text.\<close>

definition close_last :: "string list \<Rightarrow> transaction list" where
  "close_last current_row =
     (if current_row = [] then []
      else
        (let full_text = join_sp current_row;
             (d, c, b) = block_values full_text
         in case search_date full_text of
              None \<Rightarrow> []
            | Some date_str \<Rightarrow>
                [\<lparr>date = date_str, debit = d, credit = c, balance = b,
                  amount = Some (if d > 0 then - d else c),
                  description = first_line full_text\<rparr>]))"

record parser_state =
  transactions :: "transaction list"
  current_row :: "string list"
  inside_table :: bool
  header_found :: bool

definition is_header :: "string \<Rightarrow> bool" where
  "is_header line =
     (contains line ''Txn Date'' \<and> contains line ''Date'' \<and> contains line ''Description'')"

text \<open>One turn of \<open>for line in lines\<close>.\<close>

definition step :: "parser_state \<Rightarrow> string \<Rightarrow> parser_state" where
  "step st line =
     (if \<not> header_found st \<and> is_header line then st\<lparr>header_found := True\<rparr>
      else if \<not> header_found st then st
      else if blank line \<or> contains line ''Txn Date'' then st
      else
        (case search_date line of
           Some date_str \<Rightarrow>
             (if current_row st \<noteq> [] then
                st\<lparr>transactions := transactions st @ [close_block (current_row st) date_str],
                   current_row := [line], inside_table := True\<rparr>
              else st\<lparr>current_row := [line], inside_table := True\<rparr>)
         | None \<Rightarrow>
             (if inside_table st \<and> \<not> blank line
              then st\<lparr>current_row := current_row st @ [line]\<rparr> else st)))"

definition init_state :: parser_state where
  "init_state = \<lparr>transactions = [], current_row = [], inside_table = False,
                  header_found = False\<rparr>"

definition parse_transactions :: "string \<Rightarrow> transaction list" where
  "parse_transactions text =
     (let st = foldl step init_state (split_nl text)
      in transactions st @ close_last (current_row st))"

text \<open>
  The words of the specification, for comparison: an amount is a run of digits and commas,
  a dot and exactly two digits, bounded by whitespace or the ends of the text.  Since such a
  run holds no whitespace, these are the whitespace-separated words of that shape.
\<close>

fun split_ws :: "string \<Rightarrow> string \<Rightarrow> string list" where
  "split_ws w [] = (if w = [] then [] else [w])"
| "split_ws w (c # cs) =
     (if is_space c then (if w = [] then [] else [w]) @ split_ws [] cs
      else split_ws (w @ [c]) cs)"

definition is_amount_word :: "string \<Rightarrow> bool" where
  "is_amount_word w =
     (takeWhile is_dc w \<noteq> [] \<and>
      (case dropWhile is_dc w of
         [dot, f1, f2] \<Rightarrow> dot = CHR ''.'' \<and> is_digit f1 \<and> is_digit f2
       | _ \<Rightarrow> False))"

definition spec_amounts :: "string \<Rightarrow> real list" where
  "spec_amounts full_text = map float_amount (filter is_amount_word (split_ws [] full_text))"

section \<open>Properties of the parser\<close>

text \<open>Where the scan finds two amounts or more, the block's values are as intended.\<close>

lemma block_values_two_amounts:
  "2 \<le> length (find_amounts t) \<Longrightarrow>
   block_values t =
     (if is_debit t
      then (find_amounts t ! (length (find_amounts t) - 2), 0, last (find_amounts t))
      else (0, find_amounts t ! (length (find_amounts t) - 2), last (find_amounts t)))"
  by (auto simp: block_values_def Let_def)

lemma block_values_exclusive:
  "block_values t = (d, c, b) \<Longrightarrow> d = 0 \<or> c = 0"
  by (auto simp: block_values_def Let_def split: if_splits)

text \<open>A date match does not depend on the text after it.\<close>

lemma dropWhile_append_ne:
  "dropWhile P s \<noteq> [] \<Longrightarrow> dropWhile P (s @ u) = dropWhile P s @ u"
  by (induction s) auto

lemma takeWhile_append_ne:
  "dropWhile P s \<noteq> [] \<Longrightarrow> takeWhile P (s @ u) = takeWhile P s"
  by (induction s) auto

lemma date_tail_append:
  assumes "date_tail s = Some t"
  shows "date_tail (s @ u) = Some t"
proof -
  define r1 where "r1 = dropWhile is_space s"
  define r2 where "r2 = drop 3 r1"
  define r3 where "r3 = dropWhile is_space r2"
  from assms have c: "takeWhile is_space s \<noteq> []" "take 3 r1 \<in> set months"
    "takeWhile is_space r2 \<noteq> []" "length (take 4 r3) = 4" "list_all is_digit (take 4 r3)"
    and t: "t = takeWhile is_space s @ take 3 r1 @ takeWhile is_space r2 @ take 4 r3"
    by (auto simp: date_tail_def Let_def r1_def r2_def r3_def split: if_splits)
  have "\<forall>mn \<in> set months. length mn = 3" by (simp add: months_def)
  with c(2) have l1: "length (take 3 r1) = 3" by blast
  then have l1': "3 \<le> length r1" by simp
  from c(4) have l3: "4 \<le> length r3" by simp
  have "r1 \<noteq> []" using l1' by auto
  then have n1: "dropWhile is_space s \<noteq> []" unfolding r1_def .
  have "r3 \<noteq> []" using l3 by auto
  then have n3: "dropWhile is_space r2 \<noteq> []" unfolding r3_def .
  have a1: "dropWhile is_space (s @ u) = r1 @ u" "takeWhile is_space (s @ u) = takeWhile is_space s"
    unfolding r1_def by (rule dropWhile_append_ne [OF n1], rule takeWhile_append_ne [OF n1])
  have a2: "take 3 (r1 @ u) = take 3 r1" "drop 3 (r1 @ u) = r2 @ u"
    using l1' by (simp_all add: r2_def)
  have a3: "dropWhile is_space (r2 @ u) = r3 @ u" "takeWhile is_space (r2 @ u) = takeWhile is_space r2"
    unfolding r3_def by (rule dropWhile_append_ne [OF n3], rule takeWhile_append_ne [OF n3])
  have a4: "take 4 (r3 @ u) = take 4 r3" using l3 by simp
  show ?thesis
    unfolding date_tail_def Let_def a1 a2 a3 a4 using c t by simp
qed

lemma date_tail_digit:
  "is_digit c \<Longrightarrow> date_tail (c # s) = None"
  by (auto simp: date_tail_def Let_def is_digit_def is_space_def)

lemma match_date_append:
  assumes "match_date s = Some m"
  shows "match_date (s @ u) = Some m"
proof -
  define ds where "ds = takeWhile is_digit (take 2 s)"
  have len: "length ds \<le> 2" unfolding ds_def
    by (rule order_trans [OF length_takeWhile_le]) simp
  consider (two) "length ds = 2" | (one) "length ds = 1" | (none) "length ds = 0"
    using len by linarith
  then show ?thesis
  proof cases
    case two
    then obtain a b r where s: "s = a # b # r" and d: "is_digit a" "is_digit b"
      unfolding ds_def by (cases s; cases "tl s") (auto split: if_splits)
    have same: "takeWhile is_digit (take 2 (s @ u)) = ds"
      unfolding ds_def using s by simp
    have nb: "date_tail (drop 1 s) = None" using s d by (simp add: date_tail_digit)
    with assms two obtain t where t: "date_tail (drop 2 s) = Some t" "m = ds @ t"
      unfolding match_date_def Let_def ds_def by (auto split: option.splits)
    have "drop 2 (s @ u) = drop 2 s @ u" using s by simp
    with date_tail_append [OF t(1), of u] have "date_tail (drop 2 (s @ u)) = Some t" by simp
    with same two t(2) show ?thesis unfolding match_date_def Let_def by simp
  next
    case one
    with assms obtain t where t: "date_tail (drop 1 s) = Some t" "m = ds @ t"
      unfolding match_date_def Let_def ds_def by auto
    from t(1) have "drop 1 s \<noteq> []" by (auto simp: date_tail_def)
    then obtain a b r where s: "s = a # b # r" by (cases s; cases "tl s") auto
    have same: "takeWhile is_digit (take 2 (s @ u)) = ds"
      unfolding ds_def using s by simp
    have "drop 1 (s @ u) = drop 1 s @ u" using s by simp
    with date_tail_append [OF t(1), of u] have "date_tail (drop 1 (s @ u)) = Some t" by simp
    with same one t(2) show ?thesis unfolding match_date_def Let_def by simp
  next
    case none
    with assms show ?thesis unfolding match_date_def Let_def ds_def by simp
  qed
qed

lemma search_date_append:
  "search_date s \<noteq> None \<Longrightarrow> search_date (s @ u) \<noteq> None"
proof (induction s)
  case Nil
  then show ?case by simp
next
  case (Cons c cs)
  show ?case
  proof (cases "match_date (c # cs)")
    case None
    with Cons show ?thesis by (auto split: option.splits)
  next
    case (Some m)
    from match_date_append [OF this, of u] show ?thesis by simp
  qed
qed

lemma join_sp_head: "\<exists>u. join_sp (x # xs) = x @ u"
  by (cases xs) auto

text \<open>
  What holds between two turns of the loop: an open block starts with a line that has a
  date, transactions are only emitted once a block is open, and no transaction emitted
  inside the loop has the key \<open>amount\<close>.
\<close>

definition parser_inv :: "parser_state \<Rightarrow> bool" where
  "parser_inv st =
     ((current_row st = [] \<or> search_date (hd (current_row st)) \<noteq> None) \<and>
      (transactions st = [] \<or> current_row st \<noteq> []) \<and>
      (current_row st \<noteq> [] \<or> \<not> inside_table st) \<and>
      list_all (\<lambda>t. amount t = None) (transactions st))"

lemma close_block_amount: "amount (close_block row d) = None"
  by (simp add: close_block_def Let_def split: prod.splits)

lemma parser_inv_init: "parser_inv init_state"
  by (simp add: parser_inv_def init_state_def)

lemma parser_inv_step: "parser_inv st \<Longrightarrow> parser_inv (step st line)"
  by (auto simp: parser_inv_def step_def close_block_amount split: option.splits)

lemma parser_inv_foldl: "parser_inv st \<Longrightarrow> parser_inv (foldl step st ls)"
  by (induction ls arbitrary: st) (simp_all add: parser_inv_step)

lemma close_last_dated:
  assumes "row \<noteq> []" "search_date (hd row) \<noteq> None"
  shows "\<exists>t. close_last row = [t] \<and>
             amount t = Some (if debit t > 0 then - debit t else credit t)"
proof -
  from assms(1) obtain x xs where row: "row = x # xs" by (cases row) auto
  obtain u where u: "join_sp row = x @ u" using join_sp_head row by blast
  from search_date_append [of x u] assms(2) row u
  obtain ds where ds: "search_date (join_sp row) = Some ds" by auto
  obtain d c b where v: "block_values (join_sp row) = (d, c, b)" by (cases "block_values (join_sp row)") auto
  show ?thesis using assms(1) ds v by (simp add: close_last_def Let_def)
qed

section \<open>Example statements\<close>

definition nl :: string where
  "nl = [CHR 0x0A]"

definition header_line :: string where
  "header_line = ''Txn Date Value Date Description Debit Credit Balance''"

definition single_space_block :: string where
  "single_space_block = ''17 Sep 2024 UPI 1,000.00 5,000.00''"

definition two_block_text :: string where
  "two_block_text = header_line @ nl @ ''1 Jan 2024 salary 10.00  20.00'' @ nl @
     ''2 Feb 2024 paid to x 5.00  15.00''"

definition multi_line_text :: string where
  "multi_line_text = header_line @ nl @ ''1 Jan 2024 salary'' @ nl @ ''ref 10.00  20.00'' @ nl @
     ''2 Feb 2024 paid to x'' @ nl @ ''5.00  15.00''"

lemma float_amount_1000: "float_amount ''1,000.00'' = 1000"
  by (simp add: float_amount_def digits_nat_def digit_val_def)

lemma float_amount_5000: "float_amount ''5,000.00'' = 5000"
  by (simp add: float_amount_def digits_nat_def digit_val_def)

lemma single_space_words:
  "filter is_amount_word (split_ws [] single_space_block) = [''1,000.00'', ''5,000.00'']"
  by code_simp

lemma single_space_scan: "findall_amount True single_space_block = [''1,000.00'']"
  by code_simp

lemma single_space_spec: "spec_amounts single_space_block = [1000, 5000]"
  unfolding spec_amounts_def single_space_words
  by (simp add: float_amount_1000 float_amount_5000)

lemma single_space_found: "find_amounts single_space_block = [1000]"
  unfolding find_amounts_def single_space_scan
  by (simp add: float_amount_1000)

lemma single_space_parsed:
  "parse_transactions (header_line @ nl @ single_space_block) =
     [\<lparr>date = ''17 Sep 2024'', debit = 0, credit = 0, balance = 1000, amount = Some 0,
       description = ''17 Sep 2024 UPI 1,000.00 5,000.00''\<rparr>]"
  by code_simp

lemma two_block_parsed:
  "parse_transactions two_block_text =
     [\<lparr>date = ''2 Feb 2024'', debit = 0, credit = 10, balance = 20, amount = None,
       description = ''1 Jan 2024 salary 10.00  20.00''\<rparr>,
      \<lparr>date = ''2 Feb 2024'', debit = 5, credit = 0, balance = 15, amount = Some (- 5),
       description = ''2 Feb 2024 paid to x 5.00  15.00''\<rparr>]"
  by code_simp

lemma two_block_first_date: "search_date ''1 Jan 2024 salary 10.00  20.00'' = Some ''1 Jan 2024''"
  by code_simp

lemma multi_line_parsed:
  "map description (parse_transactions multi_line_text) =
     [''1 Jan 2024 salary ref 10.00  20.00'', ''2 Feb 2024 paid to x 5.00  15.00'']"
  by code_simp

section \<open>The claims about the parser\<close>

text \<open>
  C1.  For a block whose text holds two amounts or more, the balance is to be the last
  amount and the debit or credit the amount before it.  The block
  \<open>17 Sep 2024 UPI 1,000.00 5,000.00\<close> holds the two amounts 1000.00 and 5000.00, each
  bounded by whitespace or the end of the text.  The scan of the source consumes the
  space after \<open>1,000.00\<close> as the end of the first match, so that \<open>5,000.00\<close> no longer
  has a whitespace character before it and is not matched: the transaction gets balance
  1000, credit 0 and debit 0, where the claim gives balance 5000 and credit 1000.
\<close>

theorem C1_single_space_amounts_missed:
  "spec_amounts single_space_block = [1000, 5000] \<and>
   find_amounts single_space_block = [1000] \<and>
   parse_transactions (header_line @ nl @ single_space_block) =
     [\<lparr>date = ''17 Sep 2024'', debit = 0, credit = 0, balance = 1000, amount = Some 0,
       description = ''17 Sep 2024 UPI 1,000.00 5,000.00''\<rparr>]"
  using single_space_spec single_space_found single_space_parsed by (intro conjI)

text \<open>
  C2.  Every transaction is to carry the date matched on the first line of its own block.
  A block closed inside the loop takes \<open>date_match.group(1)\<close> of the line that opens the
  next block: in the statement with the blocks \<open>1 Jan 2024 ...\<close> and \<open>2 Feb 2024 ...\<close>
  both transactions are dated \<open>2 Feb 2024\<close>, although the first block's first line
  matches \<open>1 Jan 2024\<close>.
\<close>

theorem C2_closed_block_takes_next_date:
  "map date (parse_transactions two_block_text) = [''2 Feb 2024'', ''2 Feb 2024''] \<and>
   search_date ''1 Jan 2024 salary 10.00  20.00'' = Some ''1 Jan 2024''"
  using two_block_parsed two_block_first_date by simp

text \<open>
  C7.  The description is to be the first raw line of the block.  The source takes
  \<open>full_text.split("\n")[0]\<close> of the text joined with spaces, which holds no newline, so
  the description is the whole joined block: for the two-line block \<open>1 Jan 2024 salary\<close>,
  \<open>ref 10.00  20.00\<close> it is \<open>1 Jan 2024 salary ref 10.00  20.00\<close>.
\<close>

theorem C7_description_is_joined_block:
  "map description (parse_transactions multi_line_text) =
     [''1 Jan 2024 salary ref 10.00  20.00'', ''2 Feb 2024 paid to x 5.00  15.00'']"
  by (rule multi_line_parsed)

text \<open>
  C10.  Of the transactions returned by \<open>parse_transactions\<close> only the last one, the block
  closed at the end of the input, has the key \<open>amount\<close>; its value is \<open>- debit\<close> when
  \<open>debit > 0\<close> and \<open>credit\<close> otherwise.  Every transaction closed inside the loop lacks the
  key.
\<close>

theorem C10_amount_key_only_on_last:
  assumes "parse_transactions text \<noteq> []"
  shows "amount (last (parse_transactions text)) =
           Some (if debit (last (parse_transactions text)) > 0
                 then - debit (last (parse_transactions text))
                 else credit (last (parse_transactions text))) \<and>
         list_all (\<lambda>t. amount t = None) (butlast (parse_transactions text))"
proof -
  define st where "st = foldl step init_state (split_nl text)"
  have inv: "parser_inv st" unfolding st_def by (rule parser_inv_foldl [OF parser_inv_init])
  have p: "parse_transactions text = transactions st @ close_last (current_row st)"
    by (simp add: parse_transactions_def st_def Let_def)
  have ne: "current_row st \<noteq> []"
  proof
    assume e: "current_row st = []"
    with inv have "transactions st = []" by (auto simp: parser_inv_def)
    with e p assms show False by (simp add: close_last_def)
  qed
  with inv have "search_date (hd (current_row st)) \<noteq> None" by (auto simp: parser_inv_def)
  from close_last_dated [OF ne this] obtain t where
    t: "close_last (current_row st) = [t]"
       "amount t = Some (if debit t > 0 then - debit t else credit t)" by blast
  from inv have "list_all (\<lambda>t. amount t = None) (transactions st)" by (simp add: parser_inv_def)
  with p t show ?thesis by simp
qed

theorem C10_amount_key_only_on_last_witness:
  "parse_transactions two_block_text \<noteq> [] \<and>
   amount (last (parse_transactions two_block_text)) = Some (- 5) \<and>
   map amount (butlast (parse_transactions two_block_text)) = [None]"
proof -
  have ne: "parse_transactions two_block_text \<noteq> []"
    unfolding two_block_parsed by simp
  from C10_amount_key_only_on_last [OF ne] ne show ?thesis
    unfolding two_block_parsed by simp
qed

end
